theory Spec2Isabelle
  imports Main
begin

section \<open>Amphora driver tasks of the Octavia controller worker (v2)\<close>

text \<open>
  An embedding of \<^verbatim>\<open>octavia/controller/worker/v2/tasks/amphora_driver_tasks.py\<close>.
  Python exceptions are values of a sum type (\<open>Inl\<close> is a raise), the database
  repositories are tables (lists of rows) inside an explicit \<open>world\<close> that every task
  takes and returns, and every call that leaves the task (repository, driver, logger,
  status updater) is appended to the world's event trace, so that "no call is made" is
  a statement about that trace.
\<close>

subsection \<open>Python values: exceptions, dictionaries, indexing\<close>

datatype exn_class =
    AmpConnectionRetry
  | TimeOutException
  | AmpDriverNotImplementedError
  | AttributeError
  | KeyError
  | IndexError
  | OtherException string

text \<open>
  An exception instance: its class and its message (\<open>str(e)\<close>). Every instance is an
  instance of Python's \<open>Exception\<close>, which is what \<open>except Exception\<close> catches.
  The driver exception classes are declared outside this module; they are leaves of the
  hierarchy, so \<open>isinstance\<close> is equality of classes.
\<close>

datatype exn = Exn exn_class string

fun isinstance :: "exn \<Rightarrow> exn_class \<Rightarrow> bool" where
  "isinstance (Exn c msg) c' = (c = c')"

fun str_exn :: "exn \<Rightarrow> string" where
  "str_exn (Exn c msg) = msg"

type_synonym pydict = "(string \<times> string) list"

definition dict_get :: "pydict \<Rightarrow> string \<Rightarrow> string option" where
  \<comment> \<open>\<open>d.get(k)\<close>: \<open>None\<close> for a missing key\<close>
  "dict_get d k = map_of d k"

definition dict_item :: "pydict \<Rightarrow> string \<Rightarrow> exn + string" where
  \<comment> \<open>\<open>d[k]\<close>: \<open>KeyError\<close> for a missing key\<close>
  "dict_item d k = (case map_of d k of None \<Rightarrow> Inl (Exn KeyError k) | Some v \<Rightarrow> Inr v)"

definition valid_index :: "'a list \<Rightarrow> int \<Rightarrow> bool" where
  "valid_index xs i = (- int (length xs) \<le> i \<and> i < int (length xs))"

definition py_index :: "'a list \<Rightarrow> int \<Rightarrow> exn + 'a" where
  \<comment> \<open>the subscript \<open>xs[i]\<close> of a Python list, where \<open>xs[-1]\<close> is the last element\<close>
  "py_index xs i =
     (if valid_index xs i
      then Inr (xs ! nat (if 0 \<le> i then i else int (length xs) + i))
      else Inl (Exn IndexError ''list index out of range''))"

fun str_opt :: "string option \<Rightarrow> string" where
  \<comment> \<open>\<open>%s\<close> formatting of a value that may be \<open>None\<close>\<close>
  "str_opt None = ''None''"
| "str_opt (Some s) = s"

subsection \<open>Constants and configuration\<close>

text \<open>
  Modelled from the spec: \<^verbatim>\<open>octavia.common.constants\<close> is not part of the sources. The
  spec names the statuses \<open>ALLOCATED\<close> and \<open>ERROR\<close> and the flavor key
  \<open>"loadbalancer_topology"\<close>; the remaining keys are the lower-case form of their names.
\<close>

definition ID :: string where "ID = ''id''"
definition LOADBALANCER_ID :: string where "LOADBALANCER_ID = ''loadbalancer_id''"
definition LISTENER_ID :: string where "LISTENER_ID = ''listener_id''"
definition ERROR :: string where "ERROR = ''ERROR''"
definition AMPHORA_ALLOCATED :: string where "AMPHORA_ALLOCATED = ''ALLOCATED''"
definition LOADBALANCER_TOPOLOGY :: string where
  "LOADBALANCER_TOPOLOGY = ''loadbalancer_topology''"
definition CONN_MAX_RETRIES :: string where "CONN_MAX_RETRIES = ''conn_max_retries''"
definition CONN_RETRY_INTERVAL :: string where
  "CONN_RETRY_INTERVAL = ''conn_retry_interval''"

text \<open>The options of \<open>CONF\<close> that this module reads.\<close>

record config =
  connection_max_retries :: int
  active_connection_max_retries :: int
  active_connection_rety_interval :: int
  loadbalancer_topology :: string

subsection \<open>The retry policy\<close>

text \<open>
  A taskflow \<open>Failure\<close>; \<open>_exc_info\<close> is the triple (type, value, traceback) or
  \<open>None\<close> after the failure was restored from persistence.
\<close>

record failure =
  exc_info :: "(exn_class \<times> exn \<times> string) option"

datatype decision = RETRY | REVERT | REVERT_ALL

text \<open>
  One attempt of the history is a pair; its second component maps each failed task name
  to its \<open>Failure\<close> or to \<open>None\<close>.
\<close>

type_synonym 'r attempt = "'r \<times> (string \<times> failure option) list"

text \<open>The \<open>for task_name, ex_info in last_errors.items()\<close> loop of \<open>on_failure\<close>.\<close>

fun on_failure_loop :: "int \<Rightarrow> int \<Rightarrow> (string \<times> failure option) list \<Rightarrow> decision" where
  "on_failure_loop n max_retry_attempt [] = REVERT_ALL"
| "on_failure_loop n max_retry_attempt ((task_name, ex_info) # rest) =
     (if n \<le> max_retry_attempt then
        (case ex_info of
           None \<Rightarrow> RETRY
         | Some f \<Rightarrow>
             (case exc_info f of
                None \<Rightarrow> RETRY
              | Some ei \<Rightarrow>
                  (let excp = fst (snd ei)
                   in if isinstance excp AmpConnectionRetry then RETRY
                      else on_failure_loop n max_retry_attempt rest)))
      else on_failure_loop n max_retry_attempt rest)"

definition on_failure :: "config \<Rightarrow> 'r attempt list \<Rightarrow> exn + decision" where
  "on_failure conf history =
     (case py_index history (-1) of
        Inl e \<Rightarrow> Inl e
      | Inr last_attempt \<Rightarrow>
          (let last_errors = snd last_attempt;
               max_retry_attempt = connection_max_retries conf
           in Inr (on_failure_loop (int (length history)) max_retry_attempt last_errors)))"

text \<open>Classification of one entry of the most recent attempt.\<close>

fun info_absent :: "failure option \<Rightarrow> bool" where
  "info_absent None = True"
| "info_absent (Some f) = (exc_info f = None)"

fun connection_retryable :: "failure option \<Rightarrow> bool" where
  "connection_retryable None = False"
| "connection_retryable (Some f) =
     (case exc_info f of None \<Rightarrow> False
      | Some ei \<Rightarrow> isinstance (fst (snd ei)) AmpConnectionRetry)"

subsection \<open>Entities, the store and the event trace\<close>

record amphora =
  amp_id :: string
  amp_compute_id :: string
  amp_status :: string
  amp_vrrp_interface :: "string option"

record listener =
  lsn_id :: string
  lsn_provisioning_status :: string

record load_balancer =
  lb_id :: string
  lb_provisioning_status :: string
  lb_topology :: string
  lb_listeners :: "listener list"
  lb_amphorae :: "amphora list"

type_synonym timeout_dict = "(string \<times> int) list"

text \<open>The keyword arguments of \<open>amphora_repo.update\<close> used in this module.\<close>

datatype amphora_change = Set_status string | Set_vrrp_interface "string option"

fun apply_change :: "amphora_change \<Rightarrow> amphora \<Rightarrow> amphora" where
  "apply_change (Set_status s) a = a\<lparr>amp_status := s\<rparr>"
| "apply_change (Set_vrrp_interface i) a = a\<lparr>amp_vrrp_interface := i\<rparr>"

datatype log_level = DEBUG | WARNING | ERROR_LEVEL

datatype event =
    Log log_level string "string list"
  | AmphoraRepo_get "string option"
  | AmphoraRepo_update "string option" amphora_change
  | LoadBalancerRepo_get "string option"
  | Mark_amphora_status_error "string option"
  | Mark_listener_prov_status_error "string option"
  | Mark_loadbalancer_prov_status_error "string option"
  | Build_agent_config "string option" string
  | Driver_update_amphora_listeners "load_balancer option" "amphora option" timeout_dict
  | Driver_start load_balancer "amphora option"
  | Driver_get_vrrp_interface amphora timeout_dict
  | Driver_get_info "amphora option" bool
  | Driver_update_amphora_agent_config "amphora option" string

record world =
  amphora_tbl :: "amphora list"
  listener_tbl :: "listener list"
  loadbalancer_tbl :: "load_balancer list"
  events :: "event list"

definition emit :: "world \<Rightarrow> event \<Rightarrow> world" where
  "emit w ev = w\<lparr>events := events w @ [ev]\<rparr>"

definition LOG :: "world \<Rightarrow> log_level \<Rightarrow> string \<Rightarrow> string list \<Rightarrow> world" where
  "LOG w lvl msg args = emit w (Log lvl msg args)"

text \<open>
  Modelled from the spec: the repositories (\<^verbatim>\<open>octavia.db.repositories\<close>) are not part
  of the sources. The spec gives the store interface as
  \<open>get(id) -> EntitySnapshot | NotFound\<close> and \<open>update(id, fieldChanges) -> void\<close>, with
  independent field updates. \<open>get\<close> returns the first row with the identifier, or
  \<open>None\<close>; \<open>update\<close> changes the named field of every row with the identifier and is
  silent when there is none. The identifier handed in may be Python's \<open>None\<close>, which
  matches no row.
\<close>

definition amphora_rows_get :: "amphora list \<Rightarrow> string option \<Rightarrow> amphora option" where
  "amphora_rows_get tbl i = find (\<lambda>r. Some (amp_id r) = i) tbl"

definition amphora_rows_update ::
  "amphora list \<Rightarrow> string option \<Rightarrow> amphora_change \<Rightarrow> amphora list" where
  "amphora_rows_update tbl i ch =
     map (\<lambda>r. if Some (amp_id r) = i then apply_change ch r else r) tbl"

definition amphora_repo_get :: "world \<Rightarrow> string option \<Rightarrow> amphora option \<times> world" where
  "amphora_repo_get w i = (amphora_rows_get (amphora_tbl w) i, emit w (AmphoraRepo_get i))"

definition amphora_repo_update :: "world \<Rightarrow> string option \<Rightarrow> amphora_change \<Rightarrow> world" where
  "amphora_repo_update w i ch =
     emit (w\<lparr>amphora_tbl := amphora_rows_update (amphora_tbl w) i ch\<rparr>)
          (AmphoraRepo_update i ch)"

definition loadbalancer_rows_get ::
  "load_balancer list \<Rightarrow> string option \<Rightarrow> load_balancer option" where
  "loadbalancer_rows_get tbl i = find (\<lambda>r. Some (lb_id r) = i) tbl"

definition loadbalancer_repo_get ::
  "world \<Rightarrow> string option \<Rightarrow> load_balancer option \<times> world" where
  "loadbalancer_repo_get w i =
     (loadbalancer_rows_get (loadbalancer_tbl w) i, emit w (LoadBalancerRepo_get i))"

text \<open>
  Modelled from the spec: the status updater (\<^verbatim>\<open>octavia.controller.worker.task_utils\<close>)
  is not part of the sources. The spec has it apply the transition to \<open>ERROR\<close> to the
  entity, idempotently and without raising.
\<close>

definition mark_amphora_status_error :: "world \<Rightarrow> string option \<Rightarrow> world" where
  "mark_amphora_status_error w i =
     emit (w\<lparr>amphora_tbl := amphora_rows_update (amphora_tbl w) i (Set_status ERROR)\<rparr>)
          (Mark_amphora_status_error i)"

definition mark_listener_prov_status_error :: "world \<Rightarrow> string option \<Rightarrow> world" where
  "mark_listener_prov_status_error w i =
     emit (w\<lparr>listener_tbl :=
               map (\<lambda>r. if Some (lsn_id r) = i then r\<lparr>lsn_provisioning_status := ERROR\<rparr> else r)
                   (listener_tbl w)\<rparr>)
          (Mark_listener_prov_status_error i)"

definition mark_loadbalancer_prov_status_error :: "world \<Rightarrow> string option \<Rightarrow> world" where
  "mark_loadbalancer_prov_status_error w i =
     emit (w\<lparr>loadbalancer_tbl :=
               map (\<lambda>r. if Some (lb_id r) = i then r\<lparr>lb_provisioning_status := ERROR\<rparr> else r)
                   (loadbalancer_tbl w)\<rparr>)
          (Mark_loadbalancer_prov_status_error i)"

subsection \<open>The amphora driver\<close>

text \<open>
  The driver is the plugin loaded by \<open>BaseAmphoraTask.__init__\<close>; the tasks only call
  it. Each operation answers with its return value or with the exception it raises.
\<close>

record amphora_driver =
  update_amphora_listeners ::
    "load_balancer option \<Rightarrow> amphora option \<Rightarrow> timeout_dict \<Rightarrow> exn + unit"
  start :: "load_balancer \<Rightarrow> amphora option \<Rightarrow> exn + unit"
  get_vrrp_interface :: "amphora \<Rightarrow> timeout_dict \<Rightarrow> exn + string"
  get_info :: "amphora option \<Rightarrow> bool \<Rightarrow> exn + string"
  update_amphora_agent_config :: "amphora option \<Rightarrow> string \<Rightarrow> exn + unit"

subsection \<open>AmpListenersUpdate\<close>

text \<open>The loop that loads \<open>db_amphorae\<close>.\<close>

fun load_db_amphorae ::
  "world \<Rightarrow> pydict list \<Rightarrow> amphora option list \<Rightarrow> (exn + amphora option list) \<times> world" where
  "load_db_amphorae w [] db_amphorae = (Inr db_amphorae, w)"
| "load_db_amphorae w (amp # rest) db_amphorae =
     (case dict_item amp ID of
        Inl e \<Rightarrow> (Inl e, w)
      | Inr i \<Rightarrow>
          (case amphora_repo_get w (Some i) of
             (db_amp, w1) \<Rightarrow> load_db_amphorae w1 rest (db_amphorae @ [db_amp])))"

text \<open>The body of the \<open>try\<close>.\<close>

definition AmpListenersUpdate_try ::
  "amphora_driver \<Rightarrow> world \<Rightarrow> pydict \<Rightarrow> int \<Rightarrow> pydict list \<Rightarrow> timeout_dict
     \<Rightarrow> (exn + unit) \<times> world" where
  "AmpListenersUpdate_try drv w loadbalancer amphora_index amphorae td =
     (case load_db_amphorae w amphorae [] of
        (Inl e, w1) \<Rightarrow> (Inl e, w1)
      | (Inr db_amphorae, w1) \<Rightarrow>
          (case dict_item loadbalancer LOADBALANCER_ID of
             Inl e \<Rightarrow> (Inl e, w1)
           | Inr lid \<Rightarrow>
               (case loadbalancer_repo_get w1 (Some lid) of
                  (db_lb, w2) \<Rightarrow>
                    (case py_index db_amphorae amphora_index of
                       Inl e \<Rightarrow> (Inl e, w2)
                     | Inr db_amp \<Rightarrow>
                         (let w3 = emit w2 (Driver_update_amphora_listeners db_lb db_amp td)
                          in (update_amphora_listeners drv db_lb db_amp td, w3))))))"

definition AmpListenersUpdate_execute ::
  "amphora_driver \<Rightarrow> world \<Rightarrow> pydict \<Rightarrow> int \<Rightarrow> pydict list \<Rightarrow> timeout_dict
     \<Rightarrow> (exn + unit) \<times> world" where
  "AmpListenersUpdate_execute drv w loadbalancer amphora_index amphorae td =
     (case AmpListenersUpdate_try drv w loadbalancer amphora_index amphorae td of
        (Inr u, w1) \<Rightarrow> (Inr (), w1)
      | (Inl e, w1) \<Rightarrow>
          (case py_index amphorae amphora_index of
             Inl e' \<Rightarrow> (Inl e', w1)
           | Inr amp \<Rightarrow>
               (let amphora_id = dict_get amp ID;
                    w2 = LOG w1 ERROR_LEVEL
                           (''Failed to update listeners on amphora %s. Skipping '' @
                            ''this amphora as it is failing to update due to: %s'')
                           [str_opt amphora_id, str_exn e];
                    w3 = amphora_repo_update w2 amphora_id (Set_status ERROR)
                in (Inr (), w3))))"

subsection \<open>ListenersStart\<close>

definition ListenersStart_execute ::
  "amphora_driver \<Rightarrow> world \<Rightarrow> pydict \<Rightarrow> pydict option \<Rightarrow> (exn + unit) \<times> world" where
  "ListenersStart_execute drv w loadbalancer amphora =
     (case dict_item loadbalancer LOADBALANCER_ID of
        Inl e \<Rightarrow> (Inl e, w)
      | Inr lid \<Rightarrow>
          (case loadbalancer_repo_get w (Some lid) of
             (None, w1) \<Rightarrow>
               (Inl (Exn AttributeError ''NoneType object has no attribute listeners''), w1)
           | (Some db_lb, w1) \<Rightarrow>
               if lb_listeners db_lb \<noteq> [] then
                 (case (case amphora of
                          Some a \<Rightarrow>
                            (case dict_item a ID of
                               Inl e \<Rightarrow> (Inl e, w1)
                             | Inr i \<Rightarrow>
                                 (case amphora_repo_get w1 (Some i) of
                                    (db_amp, w2) \<Rightarrow> (Inr db_amp, w2)))
                        | None \<Rightarrow> (Inr None, w1)) of
                    (Inl e, w2) \<Rightarrow> (Inl e, w2)
                  | (Inr db_amp, w2) \<Rightarrow>
                      (let w3 = emit w2 (Driver_start db_lb db_amp)
                       in case start drv db_lb db_amp of
                            Inl e \<Rightarrow> (Inl e, w3)
                          | Inr u \<Rightarrow>
                              (Inr (), LOG w3 DEBUG ''Started the listeners on the vip'' [])))
               else (Inr (), w1)))"

subsection \<open>Reverts of the single-target tasks\<close>

text \<open>
  The \<open>result\<close> that the engine hands to a revert: a \<open>failure.Failure\<close> when the
  task's own execute failed, any other value otherwise.
\<close>

datatype 'a task_result = Is_Failure failure | Not_Failure 'a

text \<open>
  \<open>ListenerDelete.revert(self, listener, *args, **kwargs)\<close> has no \<open>result\<close>
  parameter: the engine's \<open>result\<close> lands in \<open>kwargs\<close> and the body never reads it.
\<close>

definition ListenerDelete_revert ::
  "world \<Rightarrow> pydict \<Rightarrow> 'a task_result \<Rightarrow> (exn + unit) \<times> world" where
  "ListenerDelete_revert w listener kwargs_result =
     (let w1 = LOG w WARNING ''Reverting listener delete.'' []
      in case dict_item listener LISTENER_ID of
           Inl e \<Rightarrow> (Inl e, w1)
         | Inr i \<Rightarrow> (Inr (), mark_listener_prov_status_error w1 (Some i)))"

definition AmphoraFinalize_revert ::
  "world \<Rightarrow> 'a task_result \<Rightarrow> pydict \<Rightarrow> (exn + unit) \<times> world" where
  "AmphoraFinalize_revert w result amphora =
     (case result of
        Is_Failure f \<Rightarrow> (Inr (), w)
      | Not_Failure v \<Rightarrow>
          (let w1 = LOG w WARNING ''Reverting amphora finalize.'' []
           in (Inr (), mark_amphora_status_error w1 (dict_get amphora ID))))"

definition AmphoraPostNetworkPlug_revert ::
  "world \<Rightarrow> 'a task_result \<Rightarrow> pydict \<Rightarrow> (exn + unit) \<times> world" where
  "AmphoraPostNetworkPlug_revert w result amphora =
     (case result of
        Is_Failure f \<Rightarrow> (Inr (), w)
      | Not_Failure v \<Rightarrow>
          (let w1 = LOG w WARNING ''Reverting post network plug.'' []
           in (Inr (), mark_amphora_status_error w1 (dict_get amphora ID))))"

definition AmphoraPostVIPPlug_revert ::
  "world \<Rightarrow> 'a task_result \<Rightarrow> pydict \<Rightarrow> pydict \<Rightarrow> (exn + unit) \<times> world" where
  "AmphoraPostVIPPlug_revert w result amphora loadbalancer =
     (case result of
        Is_Failure f \<Rightarrow> (Inr (), w)
      | Not_Failure v \<Rightarrow>
          (let w1 = LOG w WARNING ''Reverting post vip plug.'' [];
               w2 = mark_amphora_status_error w1 (dict_get amphora ID)
           in case dict_item loadbalancer LOADBALANCER_ID of
                Inl e \<Rightarrow> (Inl e, w2)
              | Inr lid \<Rightarrow> (Inr (), mark_loadbalancer_prov_status_error w2 (Some lid))))"

subsection \<open>AmphoraUpdateVRRPInterface\<close>

text \<open>
  The loop over the allocated amphorae of \<open>db_lb\<close>; \<open>amps\<close> collects the snapshots
  read back after each successful update (\<open>None\<close> where the row is gone).
\<close>

fun vrrp_loop ::
  "amphora_driver \<Rightarrow> timeout_dict \<Rightarrow> world \<Rightarrow> amphora list \<Rightarrow> amphora option list
     \<Rightarrow> amphora option list \<times> world" where
  "vrrp_loop drv td w [] amps = (amps, w)"
| "vrrp_loop drv td w (amp # rest) amps =
     (let w1 = emit w (Driver_get_vrrp_interface amp td)
      in case get_vrrp_interface drv amp td of
           Inl e \<Rightarrow>
             (let w2 = LOG w1 ERROR_LEVEL
                         (''Failed to get amphora VRRP interface on amphora '' @
                          ''%s. Skipping this amphora as it is failing due to: %s'')
                         [amp_id amp, str_exn e];
                  w3 = amphora_repo_update w2 (Some (amp_id amp)) (Set_status ERROR)
              in vrrp_loop drv td w3 rest amps)
         | Inr interface \<Rightarrow>
             (let w2 = amphora_repo_update w1 (Some (amp_id amp))
                         (Set_vrrp_interface (Some interface))
              in case amphora_repo_get w2 (Some (amp_id amp)) of
                   (db_amp, w3) \<Rightarrow> vrrp_loop drv td w3 rest (amps @ [db_amp])))"

definition vrrp_timeout_dict :: "config \<Rightarrow> timeout_dict" where
  "vrrp_timeout_dict conf =
     [(CONN_MAX_RETRIES, active_connection_max_retries conf),
      (CONN_RETRY_INTERVAL, active_connection_rety_interval conf)]"

definition allocated :: "amphora list \<Rightarrow> amphora list" where
  "allocated as = filter (\<lambda>amp. amp_status amp = AMPHORA_ALLOCATED) as"

text \<open>
  \<open>to_provider db_lb amps\<close> stands for
  \<open>db_loadbalancer_to_provider_loadbalancer(db_lb).to_dict()\<close> after the assignment
  \<open>db_lb.amphorae = amps\<close>; the conversion lives outside this module.
\<close>

definition AmphoraUpdateVRRPInterface_execute ::
  "config \<Rightarrow> (load_balancer \<Rightarrow> amphora option list \<Rightarrow> 'p) \<Rightarrow> amphora_driver \<Rightarrow> world
     \<Rightarrow> pydict \<Rightarrow> (exn + 'p) \<times> world" where
  "AmphoraUpdateVRRPInterface_execute conf to_provider drv w loadbalancer =
     (case dict_item loadbalancer LOADBALANCER_ID of
        Inl e \<Rightarrow> (Inl e, w)
      | Inr lid \<Rightarrow>
          (case loadbalancer_repo_get w (Some lid) of
             (None, w1) \<Rightarrow>
               (Inl (Exn AttributeError ''NoneType object has no attribute amphorae''), w1)
           | (Some db_lb, w1) \<Rightarrow>
               (case vrrp_loop drv (vrrp_timeout_dict conf) w1
                       (allocated (lb_amphorae db_lb)) [] of
                  (amps, w2) \<Rightarrow> (Inr (to_provider db_lb amps), w2))))"

subsection \<open>AmphoraComputeConnectivityWait\<close>

text \<open>
  The function has no \<open>return\<close> statement: where it does not raise, its value is
  Python's \<open>None\<close>, the \<open>None\<close> of the result type here.
\<close>

definition AmphoraComputeConnectivityWait_execute ::
  "amphora_driver \<Rightarrow> world \<Rightarrow> pydict \<Rightarrow> bool \<Rightarrow> (exn + string option) \<times> world" where
  "AmphoraComputeConnectivityWait_execute drv w amphora raise_retry_exception =
     (case amphora_repo_get w (dict_get amphora ID) of
        (db_amphora, w1) \<Rightarrow>
          (let w2 = emit w1 (Driver_get_info db_amphora raise_retry_exception)
           in case get_info drv db_amphora raise_retry_exception of
                Inr amp_info \<Rightarrow>
                  (Inr None,
                   LOG w2 DEBUG ''Successfuly connected to amphora %s: %s''
                     [str_opt (dict_get amphora ID), amp_info])
              | Inl e \<Rightarrow>
                  if isinstance e TimeOutException then
                    (let w3 = LOG w2 ERROR_LEVEL
                                (''Amphora compute instance failed to become reachable. '' @
                                 ''This either means the compute driver failed to fully '' @
                                 ''boot the instance inside the timeout interval or the '' @
                                 ''instance is not reachable via the lb-mgmt-net.'') [];
                         w4 = amphora_repo_update w3 (dict_get amphora ID) (Set_status ERROR)
                     in (Inl e, w4))
                  else (Inl e, w2)))"

subsection \<open>AmphoraConfigUpdate\<close>

text \<open>The block "Extract any flavor based settings"; an empty dictionary is falsy.\<close>

definition AmphoraConfigUpdate_topology :: "config \<Rightarrow> pydict option \<Rightarrow> string" where
  "AmphoraConfigUpdate_topology conf flavor =
     (case flavor of
        None \<Rightarrow> loadbalancer_topology conf
      | Some d \<Rightarrow>
          if d \<noteq> [] then
            (case dict_get d LOADBALANCER_TOPOLOGY of
               None \<Rightarrow> loadbalancer_topology conf
             | Some v \<Rightarrow> v)
          else loadbalancer_topology conf)"

text \<open>
  \<open>build_agent_config\<close> is \<open>AgentJinjaTemplater.build_agent_config\<close>, the external
  builder of the configuration blob.
\<close>

definition AmphoraConfigUpdate_execute ::
  "config \<Rightarrow> (string option \<Rightarrow> string \<Rightarrow> string) \<Rightarrow> amphora_driver \<Rightarrow> world
     \<Rightarrow> pydict \<Rightarrow> pydict option \<Rightarrow> (exn + unit) \<times> world" where
  "AmphoraConfigUpdate_execute conf build_agent_config drv w amphora flavor =
     (let topology = AmphoraConfigUpdate_topology conf flavor;
          agent_config = build_agent_config (dict_get amphora ID) topology;
          w1 = emit w (Build_agent_config (dict_get amphora ID) topology)
      in case dict_item amphora ID of
           Inl e \<Rightarrow> (Inl e, w1)
         | Inr i \<Rightarrow>
             (case amphora_repo_get w1 (Some i) of
                (db_amp, w2) \<Rightarrow>
                  (let w3 = emit w2 (Driver_update_amphora_agent_config db_amp agent_config)
                   in case update_amphora_agent_config drv db_amp agent_config of
                        Inr u \<Rightarrow> (Inr (), w3)
                      | Inl e \<Rightarrow>
                          if isinstance e AmpDriverNotImplementedError then
                            (Inr (),
                             LOG w3 ERROR_LEVEL
                               (''Amphora {} does not support agent configuration '' @
                                ''update. Please update the amphora image for this '' @
                                ''amphora. Skipping.'')
                               [str_opt (dict_get amphora ID)])
                          else (Inl e, w3))))"

subsection \<open>Concrete scenarios\<close>

definition conf0 :: config where
  "conf0 = \<lparr>connection_max_retries = 1, active_connection_max_retries = 3,
            active_connection_rety_interval = 2, loadbalancer_topology = ''SINGLE''\<rparr>"

definition retry_failure :: failure where
  "retry_failure =
     \<lparr>exc_info = Some (AmpConnectionRetry, Exn AmpConnectionRetry ''agent down'', ''tb'')\<rparr>"

definition first_history :: "unit attempt list" where
  "first_history = [((), [(''amp-wait'', Some retry_failure)])]"

definition restored_history :: "unit attempt list" where
  "restored_history =
     [((), [(''amp-wait'', Some retry_failure)]), ((), [(''amp-wait'', None)])]"

definition amp_a :: amphora where
  "amp_a = \<lparr>amp_id = ''a1'', amp_compute_id = ''c1'', amp_status = ''ALLOCATED'',
            amp_vrrp_interface = None\<rparr>"

definition amp_b :: amphora where
  "amp_b = \<lparr>amp_id = ''a2'', amp_compute_id = ''c2'', amp_status = ''ALLOCATED'',
            amp_vrrp_interface = None\<rparr>"

definition lsn0 :: listener where
  "lsn0 = \<lparr>lsn_id = ''l1'', lsn_provisioning_status = ''ACTIVE''\<rparr>"

definition lb0 :: load_balancer where
  "lb0 = \<lparr>lb_id = ''lb1'', lb_provisioning_status = ''ACTIVE'',
          lb_topology = ''ACTIVE_STANDBY'', lb_listeners = [], lb_amphorae = [amp_a, amp_b]\<rparr>"

definition world0 :: world where
  "world0 = \<lparr>amphora_tbl = [amp_a, amp_b], listener_tbl = [lsn0],
             loadbalancer_tbl = [lb0], events = []\<rparr>"

definition amp_a_dict :: pydict where
  "amp_a_dict = [(''id'', ''a1''), (''compute_id'', ''c1'')]"

definition amp_b_dict :: pydict where
  "amp_b_dict = [(''id'', ''a2''), (''compute_id'', ''c2'')]"

definition lb0_dict :: pydict where
  "lb0_dict = [(''loadbalancer_id'', ''lb1'')]"


definition lsn0_dict :: pydict where
  "lsn0_dict = [(''listener_id'', ''l1'')]"

definition driver_ok :: amphora_driver where
  "driver_ok =
     \<lparr>update_amphora_listeners = (\<lambda>db_lb db_amp td. Inr ()),
      start = (\<lambda>db_lb db_amp. Inr ()),
      get_vrrp_interface = (\<lambda>amp td. Inr ''eth1''),
      get_info = (\<lambda>db_amp r. Inr ''api_version 1.0''),
      update_amphora_agent_config = (\<lambda>db_amp cfg. Inr ())\<rparr>"

definition driver_timeout :: amphora_driver where
  "driver_timeout =
     driver_ok\<lparr>get_info := (\<lambda>db_amp r. Inl (Exn TimeOutException ''timed out''))\<rparr>"

definition driver_old_image :: amphora_driver where
  "driver_old_image =
     driver_ok\<lparr>update_amphora_agent_config :=
                 (\<lambda>db_amp cfg. Inl (Exn AmpDriverNotImplementedError ''not implemented''))\<rparr>"

definition driver_a1_broken :: amphora_driver where
  "driver_a1_broken =
     driver_ok\<lparr>get_vrrp_interface :=
                 (\<lambda>amp td. if amp_id amp = ''a1''
                            then Inl (Exn (OtherException ''RuntimeError'') ''no interface'')
                            else Inr ''eth1''),
               update_amphora_listeners :=
                 (\<lambda>db_lb db_amp td.
                    Inl (Exn (OtherException ''RuntimeError'') ''upload failed''))\<rparr>"


definition build0 :: "string option \<Rightarrow> string \<Rightarrow> string" where
  "build0 i topology = ''amphora_id = '' @ str_opt i @ ''; topology = '' @ topology"

definition standby_flavor :: pydict where
  "standby_flavor = [(''loadbalancer_topology'', ''ACTIVE_STANDBY'')]"

definition provider0 ::
  "load_balancer \<Rightarrow> amphora option list \<Rightarrow> string \<times> amphora option list" where
  "provider0 db_lb amps = (lb_id db_lb, amps)"


definition stored_failure :: failure where
  "stored_failure = \<lparr>exc_info = None\<rparr>"


section \<open>Properties\<close>

subsection \<open>Python indexing\<close>

lemma py_index_last: "xs \<noteq> [] \<Longrightarrow> py_index xs (-1) = Inr (last xs)"
  by (cases xs rule: rev_cases) (simp_all add: py_index_def valid_index_def nth_append)

lemma py_index_valid: "valid_index xs i \<Longrightarrow> \<exists>x. py_index xs i = Inr x"
  by (simp add: py_index_def)

lemma py_index_invalid:
  "\<not> valid_index xs i \<Longrightarrow> py_index xs i = Inl (Exn IndexError ''list index out of range'')"
  by (simp add: py_index_def)

subsection \<open>Dictionaries and the amphora table\<close>

lemma dict_item_get: "dict_get d k = Some v \<Longrightarrow> dict_item d k = Inr v"
  by (simp add: dict_get_def dict_item_def)

lemma amp_id_apply_change: "amp_id (apply_change ch r) = amp_id r"
  by (cases ch) simp_all

lemma amphora_rows_get_update:
  "amphora_rows_get (amphora_rows_update tbl i ch) j =
     map_option (\<lambda>r. if Some (amp_id r) = i then apply_change ch r else r)
       (amphora_rows_get tbl j)"
  by (induction tbl)
     (auto simp: amphora_rows_get_def amphora_rows_update_def amp_id_apply_change)

lemma amphora_rows_get_id: "amphora_rows_get tbl i = Some z \<Longrightarrow> Some (amp_id z) = i"
  by (auto simp: amphora_rows_get_def find_Some_iff)

lemma amphora_rows_get_status_error:
  "map_option amp_status (amphora_rows_get (amphora_rows_update tbl i (Set_status s)) i) =
     map_option (\<lambda>a. s) (amphora_rows_get tbl i)"
  by (cases "amphora_rows_get tbl i")
     (auto simp: amphora_rows_get_update dest: amphora_rows_get_id)

subsection \<open>AmpRetry.on_failure\<close>

lemma on_failure_loop_exceeded:
  "\<not> n \<le> m \<Longrightarrow> on_failure_loop n m errs = REVERT_ALL"
  by (induction errs) auto

lemma on_failure_loop_retry:
  "n \<le> m \<Longrightarrow> \<exists>x \<in> set errs. info_absent (snd x) \<or> connection_retryable (snd x) \<Longrightarrow>
   on_failure_loop n m errs = RETRY"
proof (induction errs)
  case Nil
  then show ?case by simp
next
  case (Cons x errs)
  obtain t e where x: "x = (t, e)" by (cases x)
  show ?case
  proof (cases "info_absent e \<or> connection_retryable e")
    case True
    with Cons.prems(1) x show ?thesis
      by (cases e) (auto split: option.splits simp: Let_def)
  next
    case False
    with Cons.prems(2) x
    have "\<exists>x \<in> set errs. info_absent (snd x) \<or> connection_retryable (snd x)" by auto
    with Cons.IH Cons.prems(1) have "on_failure_loop n m errs = RETRY" by blast
    with Cons.prems(1) x show ?thesis
      by (auto split: option.splits simp: Let_def)
  qed
qed

lemma on_failure_loop_revert:
  "\<forall>x \<in> set errs. \<not> info_absent (snd x) \<and> \<not> connection_retryable (snd x) \<Longrightarrow>
   on_failure_loop n m errs = REVERT_ALL"
  by (induction errs) (auto split: option.splits simp: Let_def)

lemma on_failure_eq:
  "history \<noteq> [] \<Longrightarrow>
   on_failure conf history =
     Inr (on_failure_loop (int (length history)) (connection_max_retries conf)
            (snd (last history)))"
  by (simp add: on_failure_def py_index_last Let_def)

text \<open>
  Claim C2, as stated, at a concrete input: the configured maximum is 1, the history has
  two attempts and the most recent one has an entry without failure information. The
  decision is \<open>REVERT_ALL\<close>, not \<open>RETRY\<close>: the test for absent information sits inside
  the test \<open>len(history) <= max_retry_attempt\<close>.
\<close>

theorem on_failure_absent_info_beyond_limit:
  "(''amp-wait'', None) \<in> set (snd (last restored_history)) \<and>
   info_absent None \<and>
   int (length restored_history) > connection_max_retries conf0 \<and>
   on_failure conf0 restored_history = Inr REVERT_ALL \<and>
   on_failure conf0 restored_history \<noteq> Inr RETRY"
  by (simp add: restored_history_def conf0_def on_failure_def py_index_def valid_index_def Let_def)

text \<open>
  Claim C2, amended: for a non-empty history whose most recent attempt has an entry with
  absent failure information, \<open>on_failure\<close> decides \<open>RETRY\<close> when the number of attempts
  is at most the configured maximum, and \<open>REVERT_ALL\<close> when it is greater.
\<close>

theorem on_failure_absent_info:
  assumes "history \<noteq> []"
      and "(task_name, ex_info) \<in> set (snd (last history))"
      and "info_absent ex_info"
  shows "on_failure conf history =
           Inr (if int (length history) \<le> connection_max_retries conf
                then RETRY else REVERT_ALL)"
proof (cases "int (length history) \<le> connection_max_retries conf")
  case True
  have "\<exists>x \<in> set (snd (last history)). info_absent (snd x) \<or> connection_retryable (snd x)"
    using assms(2,3) by force
  with True assms(1) show ?thesis
    by (simp add: on_failure_eq on_failure_loop_retry)
next
  case False
  with assms(1) show ?thesis
    by (simp add: on_failure_eq on_failure_loop_exceeded)
qed

theorem on_failure_absent_info_witness:
  "[((), [(''amp-wait'', None)])] \<noteq> ([] :: unit attempt list) \<and>
   (''amp-wait'', None) \<in> set (snd (last [((), [(''amp-wait'', None)])])) \<and>
   info_absent None \<and>
   on_failure conf0 [((), [(''amp-wait'', None)])] = Inr RETRY"
proof -
  have h1: "[((), [(''amp-wait'', None)])] \<noteq> ([] :: unit attempt list)" by simp
  have h2: "(''amp-wait'', None) \<in> set (snd (last [((), [(''amp-wait'', None :: failure option)])]))"
    by simp
  have h3: "info_absent None" by simp
  from on_failure_absent_info [OF h1 h2 h3, of conf0] h1 h2 h3 show ?thesis
    by (simp add: conf0_def)
qed

text \<open>
  Claim C3: for a non-empty history whose most recent attempt records failure
  information for every failed task, \<open>on_failure\<close> decides \<open>RETRY\<close> exactly when the
  number of attempts is at most the configured maximum and a recorded failure is an
  \<open>AmpConnectionRetry\<close>; in every other such case (more attempts than the maximum, or
  failures of other classes only) it decides \<open>REVERT_ALL\<close>, never \<open>REVERT\<close>.
\<close>

theorem on_failure_present_info:
  assumes "history \<noteq> []"
      and "\<forall>x \<in> set (snd (last history)). \<not> info_absent (snd x)"
  shows "on_failure conf history =
           Inr (if int (length history) \<le> connection_max_retries conf \<and>
                   (\<exists>x \<in> set (snd (last history)). connection_retryable (snd x))
                then RETRY else REVERT_ALL)"
proof (cases "int (length history) \<le> connection_max_retries conf")
  case True
  show ?thesis
  proof (cases "\<exists>x \<in> set (snd (last history)). connection_retryable (snd x)")
    case yes: True
    then have "\<exists>x \<in> set (snd (last history)).
                 info_absent (snd x) \<or> connection_retryable (snd x)"
      by blast
    with True yes assms(1) show ?thesis
      by (simp add: on_failure_eq on_failure_loop_retry)
  next
    case no: False
    with assms(2) have "\<forall>x \<in> set (snd (last history)).
                          \<not> info_absent (snd x) \<and> \<not> connection_retryable (snd x)"
      by blast
    with no assms(1) show ?thesis
      by (simp add: on_failure_eq on_failure_loop_revert)
  qed
next
  case False
  with assms(1) show ?thesis
    by (simp add: on_failure_eq on_failure_loop_exceeded)
qed

theorem on_failure_present_info_witness:
  "first_history \<noteq> [] \<and>
   snd (last first_history) = [(''amp-wait'', Some retry_failure)] \<and>
   \<not> info_absent (Some retry_failure) \<and>
   connection_retryable (Some retry_failure) \<and>
   on_failure conf0 first_history = Inr RETRY"
proof -
  have h1: "first_history \<noteq> []" by (simp add: first_history_def)
  have h2: "\<forall>x \<in> set (snd (last first_history)). \<not> info_absent (snd x)"
    by (simp add: first_history_def retry_failure_def)
  have h3: "\<exists>x \<in> set (snd (last first_history)). connection_retryable (snd x)"
    by (simp add: first_history_def retry_failure_def)
  have "int (length first_history) \<le> connection_max_retries conf0"
    by (simp add: first_history_def conf0_def)
  with on_failure_present_info [OF h1 h2, of conf0] h1 h3 show ?thesis
    by (simp add: first_history_def retry_failure_def)
qed

subsection \<open>Reverts invoked with a failure marker\<close>

text \<open>
  Claim C4, as stated, at a concrete input: the listener \<open>l1\<close> is \<open>ACTIVE\<close>, and
  \<open>ListenerDelete.revert\<close> invoked with a failure marker as result sets its provisioning
  status to \<open>ERROR\<close>. The method takes no \<open>result\<close> and has no early return.
\<close>

theorem ListenerDelete_revert_marks_listener:
  "map lsn_provisioning_status (listener_tbl world0) = [''ACTIVE''] \<and>
   map lsn_provisioning_status
     (listener_tbl (snd (ListenerDelete_revert world0 lsn0_dict
                           (Is_Failure stored_failure :: unit task_result)))) = [''ERROR'']"
  by (simp add: ListenerDelete_revert_def dict_item_def lsn0_dict_def LISTENER_ID_def
      mark_listener_prov_status_error_def emit_def LOG_def Let_def world0_def lsn0_def ERROR_def)

text \<open>
  Claim C4, amended: for amphora finalize, post-network plug and post-VIP plug, a revert
  invoked with a failure marker returns at once and leaves the whole world as it was (no
  entity status, no log line). \<open>ListenerDelete.revert\<close> does not look at the result:
  for a listener input that carries its identifier it returns normally and sets the
  provisioning status of that listener to \<open>ERROR\<close>, whatever the result is.
\<close>

theorem revert_with_failure_marker:
  "AmphoraFinalize_revert w (Is_Failure f :: 'a task_result) amphora = (Inr (), w) \<and>
   AmphoraPostNetworkPlug_revert w (Is_Failure f :: 'a task_result) amphora = (Inr (), w) \<and>
   AmphoraPostVIPPlug_revert w (Is_Failure f :: 'a task_result) amphora loadbalancer =
     (Inr (), w) \<and>
   (dict_get listener LISTENER_ID = Some i \<longrightarrow>
      fst (ListenerDelete_revert w listener (result :: 'a task_result)) = Inr () \<and>
      listener_tbl (snd (ListenerDelete_revert w listener result)) =
        map (\<lambda>r. if lsn_id r = i then r\<lparr>lsn_provisioning_status := ERROR\<rparr> else r)
          (listener_tbl w))"
  by (simp add: AmphoraFinalize_revert_def AmphoraPostNetworkPlug_revert_def
      AmphoraPostVIPPlug_revert_def ListenerDelete_revert_def dict_item_get
      mark_listener_prov_status_error_def emit_def LOG_def Let_def)

theorem revert_with_failure_marker_witness:
  "dict_get lsn0_dict LISTENER_ID = Some ''l1'' \<and>
   AmphoraFinalize_revert world0 (Is_Failure stored_failure :: unit task_result) amp_a_dict = (Inr (), world0) \<and>
   map lsn_provisioning_status
     (listener_tbl (snd (ListenerDelete_revert world0 lsn0_dict (Not_Failure ())))) = [''ERROR'']"
proof -
  have h1: "dict_get lsn0_dict LISTENER_ID = Some ''l1''"
    by (simp add: dict_get_def lsn0_dict_def LISTENER_ID_def)
  from revert_with_failure_marker [where 'a = unit, of world0 stored_failure amp_a_dict lb0_dict lsn0_dict "''l1''"
              "Not_Failure ()"] h1
  show ?thesis
    by (simp add: world0_def lsn0_def ERROR_def)
qed

subsection \<open>AmphoraComputeConnectivityWait.execute\<close>

text \<open>
  Claim C6, as stated, at a concrete input: \<open>get_info\<close> succeeds with a payload, and
  the value of \<open>execute\<close> is not that payload. The function has no \<open>return\<close>
  statement; the payload only reaches the debug log.
\<close>

theorem AmphoraComputeConnectivityWait_execute_returns_None:
  "get_info driver_ok (amphora_rows_get (amphora_tbl world0) (dict_get amp_a_dict ID)) False =
     Inr ''api_version 1.0'' \<and>
   fst (AmphoraComputeConnectivityWait_execute driver_ok world0 amp_a_dict False) \<noteq>
     Inr (Some ''api_version 1.0'')"
  by (simp add: AmphoraComputeConnectivityWait_execute_def amphora_repo_get_def driver_ok_def
      Let_def)

text \<open>
  Claim C6, amended: if \<open>get_info\<close> raises a timeout error, \<open>execute\<close> sets the status
  of the amphora to \<open>ERROR\<close> and raises the same error again; if \<open>get_info\<close> succeeds,
  \<open>execute\<close> returns \<open>None\<close>, writes the payload to the debug log and performs no
  update: the tables are unchanged and the only events are the lookup, the driver call and
  the log line.
\<close>

theorem AmphoraComputeConnectivityWait_execute_outcomes:
  "(get_info drv (amphora_rows_get (amphora_tbl w) (dict_get amphora ID)) r = Inl e \<and>
    isinstance e TimeOutException \<longrightarrow>
      fst (AmphoraComputeConnectivityWait_execute drv w amphora r) = Inl e \<and>
      amphora_tbl (snd (AmphoraComputeConnectivityWait_execute drv w amphora r)) =
        amphora_rows_update (amphora_tbl w) (dict_get amphora ID) (Set_status ERROR) \<and>
      map_option amp_status
        (amphora_rows_get (amphora_tbl (snd (AmphoraComputeConnectivityWait_execute drv w amphora r)))
           (dict_get amphora ID)) =
        map_option (\<lambda>a. ERROR) (amphora_rows_get (amphora_tbl w) (dict_get amphora ID))) \<and>
   (get_info drv (amphora_rows_get (amphora_tbl w) (dict_get amphora ID)) r = Inr amp_info \<longrightarrow>
      AmphoraComputeConnectivityWait_execute drv w amphora r =
        (Inr None,
         w\<lparr>events := events w @
              [AmphoraRepo_get (dict_get amphora ID),
               Driver_get_info (amphora_rows_get (amphora_tbl w) (dict_get amphora ID)) r,
               Log DEBUG ''Successfuly connected to amphora %s: %s''
                 [str_opt (dict_get amphora ID), amp_info]]\<rparr>))"
  by (auto simp: AmphoraComputeConnectivityWait_execute_def amphora_repo_get_def emit_def
      LOG_def Let_def amphora_repo_update_def amphora_rows_get_status_error)

theorem AmphoraComputeConnectivityWait_execute_outcomes_witness:
  "get_info driver_timeout (amphora_rows_get (amphora_tbl world0) (dict_get amp_a_dict ID)) False =
     Inl (Exn TimeOutException ''timed out'') \<and>
   isinstance (Exn TimeOutException ''timed out'') TimeOutException \<and>
   fst (AmphoraComputeConnectivityWait_execute driver_timeout world0 amp_a_dict False) =
     Inl (Exn TimeOutException ''timed out'') \<and>
   map amp_status
     (amphora_tbl (snd (AmphoraComputeConnectivityWait_execute driver_timeout world0 amp_a_dict False))) =
     [''ERROR'', ''ALLOCATED''] \<and>
   get_info driver_ok (amphora_rows_get (amphora_tbl world0) (dict_get amp_a_dict ID)) False =
     Inr ''api_version 1.0'' \<and>
   fst (AmphoraComputeConnectivityWait_execute driver_ok world0 amp_a_dict False) = Inr None \<and>
   amphora_tbl (snd (AmphoraComputeConnectivityWait_execute driver_ok world0 amp_a_dict False)) =
     amphora_tbl world0"
proof -
  let ?x = "amphora_rows_get (amphora_tbl world0) (dict_get amp_a_dict ID)"
  have h1: "get_info driver_timeout ?x False = Inl (Exn TimeOutException ''timed out'')"
    by (simp add: driver_timeout_def driver_ok_def)
  have h2: "isinstance (Exn TimeOutException ''timed out'') TimeOutException" by simp
  have h3: "get_info driver_ok ?x False = Inr ''api_version 1.0''"
    by (simp add: driver_ok_def)
  have t: "amphora_rows_update (amphora_tbl world0) (dict_get amp_a_dict ID) (Set_status ERROR) =
             [amp_a\<lparr>amp_status := ''ERROR''\<rparr>, amp_b]"
    by (simp add: amphora_rows_update_def world0_def dict_get_def amp_a_dict_def ID_def
        amp_a_def amp_b_def ERROR_def)
  from AmphoraComputeConnectivityWait_execute_outcomes [of driver_timeout world0 amp_a_dict False "Exn TimeOutException ''timed out''"]
       AmphoraComputeConnectivityWait_execute_outcomes [of driver_ok world0 amp_a_dict False _ "''api_version 1.0''"]
       h1 h2 h3 t
  show ?thesis
    by (simp add: amp_a_def amp_b_def)
qed

subsection \<open>AmphoraConfigUpdate.execute\<close>

lemma AmphoraConfigUpdate_topology_None: "AmphoraConfigUpdate_topology conf None = loadbalancer_topology conf"
  by (simp add: AmphoraConfigUpdate_topology_def)

lemma AmphoraConfigUpdate_topology_Some:
  "dict_get d LOADBALANCER_TOPOLOGY = Some v \<Longrightarrow> AmphoraConfigUpdate_topology conf (Some d) = v"
  by (auto simp: AmphoraConfigUpdate_topology_def dict_get_def)

lemma config_update_events:
  "\<exists>rest. events (snd (AmphoraConfigUpdate_execute conf build drv w amphora flavor)) =
     events w @
       Build_agent_config (dict_get amphora ID) (AmphoraConfigUpdate_topology conf flavor) # rest"
  by (auto simp: AmphoraConfigUpdate_execute_def amphora_repo_get_def emit_def LOG_def Let_def
      split: sum.splits)

lemma config_update_push:
  "dict_get amphora ID = Some i \<Longrightarrow>
   \<exists>rest. events (snd (AmphoraConfigUpdate_execute conf build drv w amphora flavor)) =
     events w @
       [Build_agent_config (Some i) (AmphoraConfigUpdate_topology conf flavor),
        AmphoraRepo_get (Some i),
        Driver_update_amphora_agent_config (amphora_rows_get (amphora_tbl w) (Some i))
          (build (Some i) (AmphoraConfigUpdate_topology conf flavor))] @ rest"
  by (auto simp: AmphoraConfigUpdate_execute_def amphora_repo_get_def emit_def LOG_def Let_def
      dict_item_get split: sum.splits)

text \<open>
  Claim C8: with \<open>flavor = None\<close> the agent configuration is built with the
  process-wide default \<open>loadbalancer_topology\<close>; with a flavor that maps
  \<open>"loadbalancer_topology"\<close> to \<open>"ACTIVE_STANDBY"\<close> it is built with that value. The
  call of the builder is the first event of \<open>execute\<close>, and for an amphora input that
  carries its identifier the configuration built from that topology is the one handed to
  the driver.
\<close>

theorem AmphoraConfigUpdate_execute_topology:
  "(\<exists>rest. events (snd (AmphoraConfigUpdate_execute conf build drv w amphora None)) =
      events w @ Build_agent_config (dict_get amphora ID) (loadbalancer_topology conf) # rest) \<and>
   (dict_get d LOADBALANCER_TOPOLOGY = Some ''ACTIVE_STANDBY'' \<longrightarrow>
      (\<exists>rest. events (snd (AmphoraConfigUpdate_execute conf build drv w amphora (Some d))) =
         events w @ Build_agent_config (dict_get amphora ID) ''ACTIVE_STANDBY'' # rest)) \<and>
   (dict_get amphora ID = Some i \<longrightarrow>
      (\<exists>rest. events (snd (AmphoraConfigUpdate_execute conf build drv w amphora None)) =
         events w @
           [Build_agent_config (Some i) (loadbalancer_topology conf),
            AmphoraRepo_get (Some i),
            Driver_update_amphora_agent_config (amphora_rows_get (amphora_tbl w) (Some i))
              (build (Some i) (loadbalancer_topology conf))] @ rest)) \<and>
   (dict_get amphora ID = Some i \<and> dict_get d LOADBALANCER_TOPOLOGY = Some ''ACTIVE_STANDBY'' \<longrightarrow>
      (\<exists>rest. events (snd (AmphoraConfigUpdate_execute conf build drv w amphora (Some d))) =
         events w @
           [Build_agent_config (Some i) ''ACTIVE_STANDBY'',
            AmphoraRepo_get (Some i),
            Driver_update_amphora_agent_config (amphora_rows_get (amphora_tbl w) (Some i))
              (build (Some i) ''ACTIVE_STANDBY'')] @ rest))"
proof (intro conjI impI)
  show "\<exists>rest. events (snd (AmphoraConfigUpdate_execute conf build drv w amphora None)) =
      events w @ Build_agent_config (dict_get amphora ID) (loadbalancer_topology conf) # rest"
    using config_update_events [of conf build drv w amphora None]
    by (simp add: AmphoraConfigUpdate_topology_None)
next
  assume "dict_get d LOADBALANCER_TOPOLOGY = Some ''ACTIVE_STANDBY''"
  then show "\<exists>rest. events (snd (AmphoraConfigUpdate_execute conf build drv w amphora (Some d))) =
         events w @ Build_agent_config (dict_get amphora ID) ''ACTIVE_STANDBY'' # rest"
    using config_update_events [of conf build drv w amphora "Some d"]
    by (simp add: AmphoraConfigUpdate_topology_Some)
next
  assume "dict_get amphora ID = Some i"
  then show "\<exists>rest. events (snd (AmphoraConfigUpdate_execute conf build drv w amphora None)) =
         events w @
           [Build_agent_config (Some i) (loadbalancer_topology conf),
            AmphoraRepo_get (Some i),
            Driver_update_amphora_agent_config (amphora_rows_get (amphora_tbl w) (Some i))
              (build (Some i) (loadbalancer_topology conf))] @ rest"
    using config_update_push [of amphora i conf build drv w None]
    by (simp add: AmphoraConfigUpdate_topology_None)
next
  assume "dict_get amphora ID = Some i \<and> dict_get d LOADBALANCER_TOPOLOGY = Some ''ACTIVE_STANDBY''"
  then show "\<exists>rest. events (snd (AmphoraConfigUpdate_execute conf build drv w amphora (Some d))) =
         events w @
           [Build_agent_config (Some i) ''ACTIVE_STANDBY'',
            AmphoraRepo_get (Some i),
            Driver_update_amphora_agent_config (amphora_rows_get (amphora_tbl w) (Some i))
              (build (Some i) ''ACTIVE_STANDBY'')] @ rest"
    using config_update_push [of amphora i conf build drv w "Some d"]
    by (simp add: AmphoraConfigUpdate_topology_Some)
qed

theorem AmphoraConfigUpdate_execute_topology_witness:
  "dict_get amp_a_dict ID = Some ''a1'' \<and>
   dict_get standby_flavor LOADBALANCER_TOPOLOGY = Some ''ACTIVE_STANDBY'' \<and>
   loadbalancer_topology conf0 = ''SINGLE'' \<and>
   events (snd (AmphoraConfigUpdate_execute conf0 build0 driver_ok world0 amp_a_dict None)) =
     [Build_agent_config (Some ''a1'') ''SINGLE'',
      AmphoraRepo_get (Some ''a1''),
      Driver_update_amphora_agent_config (Some amp_a) (build0 (Some ''a1'') ''SINGLE'')] \<and>
   events (snd (AmphoraConfigUpdate_execute conf0 build0 driver_ok world0 amp_a_dict
                  (Some standby_flavor))) =
     [Build_agent_config (Some ''a1'') ''ACTIVE_STANDBY'',
      AmphoraRepo_get (Some ''a1''),
      Driver_update_amphora_agent_config (Some amp_a) (build0 (Some ''a1'') ''ACTIVE_STANDBY'')]"
proof -
  have h1: "dict_get amp_a_dict ID = Some ''a1''"
    by (simp add: dict_get_def amp_a_dict_def ID_def)
  have h2: "dict_get standby_flavor LOADBALANCER_TOPOLOGY = Some ''ACTIVE_STANDBY''"
    by (simp add: dict_get_def standby_flavor_def LOADBALANCER_TOPOLOGY_def)
  have h3: "loadbalancer_topology conf0 = ''SINGLE''" by (simp add: conf0_def)
  have g: "amphora_rows_get (amphora_tbl world0) (Some ''a1'') = Some amp_a"
    by (simp add: amphora_rows_get_def world0_def amp_a_def)
  have e: "events world0 = []" by (simp add: world0_def)
  have n: "length (events (snd (AmphoraConfigUpdate_execute conf0 build0 driver_ok world0 amp_a_dict None))) = 3"
    by (simp add: AmphoraConfigUpdate_execute_def amphora_repo_get_def emit_def Let_def
        dict_item_get [OF h1] driver_ok_def e)
  have m: "length (events (snd (AmphoraConfigUpdate_execute conf0 build0 driver_ok world0 amp_a_dict (Some standby_flavor)))) = 3"
    by (simp add: AmphoraConfigUpdate_execute_def amphora_repo_get_def emit_def Let_def
        dict_item_get [OF h1] driver_ok_def e)
  from AmphoraConfigUpdate_execute_topology [of conf0 build0 driver_ok world0 amp_a_dict standby_flavor "''a1''"] h1 h2 h3 g e n m
  show ?thesis by auto
qed

text \<open>
  Claim C9: if \<open>update_amphora_agent_config\<close> raises \<open>AmpDriverNotImplementedError\<close>,
  \<open>execute\<close> logs the condition at error level and returns normally; the tables are
  unchanged, so no entity status changes.
\<close>

theorem AmphoraConfigUpdate_execute_not_implemented:
  assumes "dict_get amphora ID = Some i"
      and "update_amphora_agent_config drv (amphora_rows_get (amphora_tbl w) (Some i))
             (build (Some i) (AmphoraConfigUpdate_topology conf flavor)) = Inl e"
      and "isinstance e AmpDriverNotImplementedError"
  shows "AmphoraConfigUpdate_execute conf build drv w amphora flavor =
           (Inr (),
            w\<lparr>events := events w @
                 [Build_agent_config (Some i) (AmphoraConfigUpdate_topology conf flavor),
                  AmphoraRepo_get (Some i),
                  Driver_update_amphora_agent_config
                    (amphora_rows_get (amphora_tbl w) (Some i))
                    (build (Some i) (AmphoraConfigUpdate_topology conf flavor)),
                  Log ERROR_LEVEL
                    (''Amphora {} does not support agent configuration '' @
                     ''update. Please update the amphora image for this '' @
                     ''amphora. Skipping.'') [i]]\<rparr>)"
  using assms
  by (simp add: AmphoraConfigUpdate_execute_def dict_item_get amphora_repo_get_def emit_def
      LOG_def Let_def)

theorem AmphoraConfigUpdate_execute_not_implemented_witness:
  "dict_get amp_a_dict ID = Some ''a1'' \<and>
   update_amphora_agent_config driver_old_image
     (amphora_rows_get (amphora_tbl world0) (Some ''a1''))
     (build0 (Some ''a1'') (AmphoraConfigUpdate_topology conf0 None)) =
     Inl (Exn AmpDriverNotImplementedError ''not implemented'') \<and>
   isinstance (Exn AmpDriverNotImplementedError ''not implemented'') AmpDriverNotImplementedError \<and>
   fst (AmphoraConfigUpdate_execute conf0 build0 driver_old_image world0 amp_a_dict None) = Inr () \<and>
   amphora_tbl (snd (AmphoraConfigUpdate_execute conf0 build0 driver_old_image world0 amp_a_dict None)) =
     amphora_tbl world0 \<and>
   last (events (snd (AmphoraConfigUpdate_execute conf0 build0 driver_old_image world0 amp_a_dict None))) =
     Log ERROR_LEVEL
       (''Amphora {} does not support agent configuration '' @
        ''update. Please update the amphora image for this '' @
        ''amphora. Skipping.'') [''a1'']"
proof -
  have h1: "dict_get amp_a_dict ID = Some ''a1''"
    by (simp add: dict_get_def amp_a_dict_def ID_def)
  have h2: "update_amphora_agent_config driver_old_image
     (amphora_rows_get (amphora_tbl world0) (Some ''a1''))
     (build0 (Some ''a1'') (AmphoraConfigUpdate_topology conf0 None)) =
     Inl (Exn AmpDriverNotImplementedError ''not implemented'')"
    by (simp add: driver_old_image_def driver_ok_def)
  have h3: "isinstance (Exn AmpDriverNotImplementedError ''not implemented'')
              AmpDriverNotImplementedError" by simp
  from AmphoraConfigUpdate_execute_not_implemented [where amphora = amp_a_dict and i = "''a1''" and drv = driver_old_image
              and w = world0 and build = build0 and conf = conf0 and flavor = None, OF h1 h2 h3]
       h1 h2 h3
  show ?thesis by simp
qed

subsection \<open>ListenersStart.execute\<close>

text \<open>
  Claim C10: for a load balancer whose listener collection is empty, \<open>execute\<close> returns
  normally, every table is unchanged and the only event is the lookup of the load
  balancer: the driver's \<open>start\<close> is not called and no amphora is looked up, whatever
  the \<open>amphora\<close> argument is.
\<close>

theorem ListenersStart_execute_no_listeners:
  assumes "dict_get loadbalancer LOADBALANCER_ID = Some lid"
      and "loadbalancer_rows_get (loadbalancer_tbl w) (Some lid) = Some db_lb"
      and "lb_listeners db_lb = []"
  shows "ListenersStart_execute drv w loadbalancer amphora =
           (Inr (), w\<lparr>events := events w @ [LoadBalancerRepo_get (Some lid)]\<rparr>)"
  using assms
  by (simp add: ListenersStart_execute_def dict_item_get loadbalancer_repo_get_def emit_def)

theorem ListenersStart_execute_no_listeners_witness:
  "dict_get lb0_dict LOADBALANCER_ID = Some ''lb1'' \<and>
   loadbalancer_rows_get (loadbalancer_tbl world0) (Some ''lb1'') = Some lb0 \<and>
   lb_listeners lb0 = [] \<and>
   ListenersStart_execute driver_ok world0 lb0_dict (Some amp_a_dict) =
     (Inr (), world0\<lparr>events := [LoadBalancerRepo_get (Some ''lb1'')]\<rparr>)"
proof -
  have h1: "dict_get lb0_dict LOADBALANCER_ID = Some ''lb1''"
    by (simp add: dict_get_def lb0_dict_def LOADBALANCER_ID_def)
  have h2: "loadbalancer_rows_get (loadbalancer_tbl world0) (Some ''lb1'') = Some lb0"
    by (simp add: loadbalancer_rows_get_def world0_def lb0_def)
  have h3: "lb_listeners lb0 = []" by (simp add: lb0_def)
  have e: "events world0 = []" by (simp add: world0_def)
  from ListenersStart_execute_no_listeners [OF h1 h2 h3, of driver_ok "Some amp_a_dict"] h1 h2 h3 e show ?thesis by simp
qed

subsection \<open>AmpListenersUpdate.execute\<close>

lemma emit_tables [simp]:
  "amphora_tbl (emit w ev) = amphora_tbl w"
  "listener_tbl (emit w ev) = listener_tbl w"
  "loadbalancer_tbl (emit w ev) = loadbalancer_tbl w"
  by (simp_all add: emit_def)

lemma amphora_repo_update_tbl [simp]:
  "amphora_tbl (amphora_repo_update w i ch) = amphora_rows_update (amphora_tbl w) i ch"
  by (simp add: amphora_repo_update_def)

lemma load_db_amphorae_ok:
  "\<forall>amp \<in> set amphorae. dict_get amp ID \<noteq> None \<Longrightarrow>
   load_db_amphorae w amphorae acc =
     (Inr (acc @ map (\<lambda>amp. amphora_rows_get (amphora_tbl w) (dict_get amp ID)) amphorae),
      w\<lparr>events := events w @ map (\<lambda>amp. AmphoraRepo_get (dict_get amp ID)) amphorae\<rparr>)"
proof (induction amphorae arbitrary: w acc)
  case Nil
  then show ?case by simp
next
  case (Cons amp rest)
  from Cons.prems obtain i where i: "dict_get amp ID = Some i" by auto
  from Cons.prems have "\<forall>amp \<in> set rest. dict_get amp ID \<noteq> None" by simp
  from Cons.IH [OF this] i show ?case
    by (simp add: dict_item_get amphora_repo_get_def emit_def)
qed

lemma load_db_amphorae_amphora_tbl:
  "amphora_tbl (snd (load_db_amphorae w amphorae acc)) = amphora_tbl w"
  by (induction amphorae arbitrary: w acc)
     (auto simp: amphora_repo_get_def split: sum.splits)


lemma AmpListenersUpdate_try_amphora_tbl:
  "amphora_tbl (snd (AmpListenersUpdate_try drv w loadbalancer amphora_index amphorae td)) =
     amphora_tbl w"
proof -
  obtain r w1 where l: "load_db_amphorae w amphorae [] = (r, w1)" by (cases "load_db_amphorae w amphorae []")
  with load_db_amphorae_amphora_tbl [of w amphorae "[]"] have "amphora_tbl w1 = amphora_tbl w" by simp
  with l show ?thesis
    by (auto simp: AmpListenersUpdate_try_def loadbalancer_repo_get_def Let_def split: sum.splits)
qed

lemma valid_index_length: "length xs = length ys \<Longrightarrow> valid_index xs i = valid_index ys i"
  by (simp add: valid_index_def)



lemma py_index_map:
  "py_index xs i = Inr x \<Longrightarrow> py_index (map g xs) i = Inr (g x)"
  by (auto simp: py_index_def valid_index_def split: if_splits)

lemma AmpListenersUpdate_try_driver:
  assumes "\<forall>amp \<in> set amphorae. dict_get amp ID \<noteq> None"
      and "dict_get loadbalancer LOADBALANCER_ID = Some lid"
      and "py_index amphorae amphora_index = Inr target"
  shows "fst (AmpListenersUpdate_try drv w loadbalancer amphora_index amphorae td) =
           update_amphora_listeners drv
             (loadbalancer_rows_get (loadbalancer_tbl w) (Some lid))
             (amphora_rows_get (amphora_tbl w) (dict_get target ID)) td"
  using assms(2) py_index_map [OF assms(3), of "\<lambda>amp. amphora_rows_get (amphora_tbl w) (dict_get amp ID)"]
  by (simp add: AmpListenersUpdate_try_def load_db_amphorae_ok [OF assms(1)] dict_item_get
      loadbalancer_repo_get_def emit_def Let_def)

lemma AmpListenersUpdate_execute_caught:
  assumes "py_index amphorae amphora_index = Inr target"
      and "fst (AmpListenersUpdate_try drv w loadbalancer amphora_index amphorae td) = Inl e"
  shows "fst (AmpListenersUpdate_execute drv w loadbalancer amphora_index amphorae td) = Inr () \<and>
         amphora_tbl (snd (AmpListenersUpdate_execute drv w loadbalancer amphora_index amphorae td)) =
           amphora_rows_update (amphora_tbl w) (dict_get target ID) (Set_status ERROR)"
proof -
  obtain w1 where t: "AmpListenersUpdate_try drv w loadbalancer amphora_index amphorae td = (Inl e, w1)"
    using assms(2) by (cases "AmpListenersUpdate_try drv w loadbalancer amphora_index amphorae td") auto
  with AmpListenersUpdate_try_amphora_tbl [of drv w loadbalancer amphora_index amphorae td]
  have "amphora_tbl w1 = amphora_tbl w" by simp
  with t assms(1) show ?thesis
    by (simp add: AmpListenersUpdate_execute_def Let_def LOG_def)
qed

lemma amphora_rows_update_status:
  "map amp_status (amphora_rows_update tbl i (Set_status s)) =
     map (\<lambda>r. if Some (amp_id r) = i then s else amp_status r) tbl"
  by (simp add: amphora_rows_update_def)

subsection \<open>AmphoraUpdateVRRPInterface.execute\<close>

lemma vrrp_loop_statuses_aux:
  "map (\<lambda>r. (amp_id r, amp_status r)) (amphora_tbl (snd (vrrp_loop drv td w targets amps))) =
   map (\<lambda>r. (amp_id r,
              if \<exists>t \<in> set targets. amp_id t = amp_id r \<and> isl (get_vrrp_interface drv t td)
              then ERROR else amp_status r))
     (amphora_tbl w)"
proof (induction targets arbitrary: w amps)
  case Nil
  then show ?case by simp
next
  case (Cons amp rest)
  show ?case
  proof (cases "get_vrrp_interface drv amp td")
    case (Inl e)
    let ?w3 = "amphora_repo_update
                 (LOG (emit w (Driver_get_vrrp_interface amp td)) ERROR_LEVEL
                    (''Failed to get amphora VRRP interface on amphora '' @
                     ''%s. Skipping this amphora as it is failing due to: %s'')
                    [amp_id amp, str_exn e])
                 (Some (amp_id amp)) (Set_status ERROR)"
    have step: "vrrp_loop drv td w (amp # rest) amps = vrrp_loop drv td ?w3 rest amps"
      using Inl by (simp add: Let_def)
    have tbl: "amphora_tbl ?w3 =
                 amphora_rows_update (amphora_tbl w) (Some (amp_id amp)) (Set_status ERROR)"
      by (simp add: LOG_def)
    show ?thesis
      unfolding step Cons.IH [of ?w3 amps] tbl
      using Inl by (auto simp: amphora_rows_update_def)
  next
    case (Inr interface)
    let ?w2 = "amphora_repo_update (emit w (Driver_get_vrrp_interface amp td))
                 (Some (amp_id amp)) (Set_vrrp_interface (Some interface))"
    let ?w3 = "snd (amphora_repo_get ?w2 (Some (amp_id amp)))"
    let ?a = "fst (amphora_repo_get ?w2 (Some (amp_id amp)))"
    have step: "vrrp_loop drv td w (amp # rest) amps = vrrp_loop drv td ?w3 rest (amps @ [?a])"
      using Inr by (simp add: Let_def split: prod.splits)
    have tbl: "amphora_tbl ?w3 =
                 amphora_rows_update (amphora_tbl w) (Some (amp_id amp))
                   (Set_vrrp_interface (Some interface))"
      by (simp add: amphora_repo_get_def)
    show ?thesis
      unfolding step Cons.IH [of ?w3 "amps @ [?a]"] tbl
      using Inr by (auto simp: amphora_rows_update_def)
  qed
qed

lemma vrrp_loop_statuses:
  "map amp_status (amphora_tbl (snd (vrrp_loop drv td w targets amps))) =
   map (\<lambda>r. if \<exists>t \<in> set targets. amp_id t = amp_id r \<and> isl (get_vrrp_interface drv t td)
            then ERROR else amp_status r)
     (amphora_tbl w)"
proof -
  have "map snd (map (\<lambda>r. (amp_id r, amp_status r))
          (amphora_tbl (snd (vrrp_loop drv td w targets amps)))) =
        map snd (map (\<lambda>r. (amp_id r,
              if \<exists>t \<in> set targets. amp_id t = amp_id r \<and> isl (get_vrrp_interface drv t td)
              then ERROR else amp_status r))
          (amphora_tbl w))"
    by (simp only: vrrp_loop_statuses_aux)
  then show ?thesis by (simp add: comp_def)
qed

lemma AmphoraUpdateVRRPInterface_execute_found:
  assumes "dict_get loadbalancer LOADBALANCER_ID = Some lid"
      and "loadbalancer_rows_get (loadbalancer_tbl w) (Some lid) = Some db_lb"
  shows "AmphoraUpdateVRRPInterface_execute conf to_provider drv w loadbalancer =
           (Inr (to_provider db_lb
                   (fst (vrrp_loop drv (vrrp_timeout_dict conf)
                           (emit w (LoadBalancerRepo_get (Some lid)))
                           (allocated (lb_amphorae db_lb)) []))),
            snd (vrrp_loop drv (vrrp_timeout_dict conf)
                   (emit w (LoadBalancerRepo_get (Some lid)))
                   (allocated (lb_amphorae db_lb)) []))"
  using assms
  by (simp add: AmphoraUpdateVRRPInterface_execute_def dict_item_get loadbalancer_repo_get_def
      split: prod.splits)

lemma vrrp_single_failure_statuses:
  assumes "dict_get loadbalancer LOADBALANCER_ID = Some lid"
      and "loadbalancer_rows_get (loadbalancer_tbl w) (Some lid) = Some db_lb"
      and "f \<in> set (allocated (lb_amphorae db_lb))"
      and "get_vrrp_interface drv f (vrrp_timeout_dict conf) = Inl e"
      and "\<forall>t \<in> set (allocated (lb_amphorae db_lb)).
             amp_id t \<noteq> amp_id f \<longrightarrow> \<not> isl (get_vrrp_interface drv t (vrrp_timeout_dict conf))"
  shows "\<not> isl (fst (AmphoraUpdateVRRPInterface_execute conf to_provider drv w loadbalancer)) \<and>
         map amp_status
           (amphora_tbl (snd (AmphoraUpdateVRRPInterface_execute conf to_provider drv w loadbalancer))) =
         map (\<lambda>r. if amp_id r = amp_id f then ERROR else amp_status r) (amphora_tbl w)"
proof -
  have iff: "\<And>r. (\<exists>t \<in> set (allocated (lb_amphorae db_lb)).
                amp_id t = amp_id r \<and> isl (get_vrrp_interface drv t (vrrp_timeout_dict conf))) =
             (amp_id r = amp_id f)"
    using assms(3,4,5) by (metis isl_def)
  have eq:
    "(\<lambda>r. if \<exists>t \<in> set (allocated (lb_amphorae db_lb)).
                amp_id t = amp_id r \<and> isl (get_vrrp_interface drv t (vrrp_timeout_dict conf))
            then ERROR else amp_status r) =
     (\<lambda>r. if amp_id r = amp_id f then ERROR else amp_status r)"
    by (rule ext) (simp only: iff)
  show ?thesis
    unfolding AmphoraUpdateVRRPInterface_execute_found [OF assms(1,2)] fst_conv snd_conv
      vrrp_loop_statuses eq
    by (simp add: emit_def)
qed

subsection \<open>The fan-out tasks\<close>

text \<open>
  Claim C1: in both fan-out tasks a driver call that raises for one target amphora is
  caught. \<open>AmpListenersUpdate.execute\<close> makes one driver call, for the amphora at
  \<open>amphora_index\<close>: if that call raises, \<open>execute\<close> returns normally, the rows of that
  amphora have status \<open>ERROR\<close> and every other row keeps its status.
  \<open>AmphoraUpdateVRRPInterface.execute\<close> calls the driver for each allocated amphora of
  the load balancer: if the call raises for the amphora \<open>f\<close> and for no amphora with
  another identifier, \<open>execute\<close> returns normally, the rows of \<open>f\<close> have status
  \<open>ERROR\<close> and every other row keeps its status. The error may be of any class that
  \<open>except Exception\<close> catches.
\<close>

theorem fan_out_single_failure:
  "((\<forall>amp \<in> set amphorae. dict_get amp ID \<noteq> None) \<and>
    dict_get loadbalancer LOADBALANCER_ID = Some lid \<and>
    py_index amphorae amphora_index = Inr target \<and>
    update_amphora_listeners drv
      (loadbalancer_rows_get (loadbalancer_tbl w) (Some lid))
      (amphora_rows_get (amphora_tbl w) (dict_get target ID)) td = Inl e \<longrightarrow>
      fst (AmpListenersUpdate_execute drv w loadbalancer amphora_index amphorae td) = Inr () \<and>
      map amp_status
        (amphora_tbl (snd (AmpListenersUpdate_execute drv w loadbalancer amphora_index amphorae td))) =
        map (\<lambda>r. if Some (amp_id r) = dict_get target ID then ERROR else amp_status r)
          (amphora_tbl w)) \<and>
   (dict_get loadbalancer LOADBALANCER_ID = Some lid \<and>
    loadbalancer_rows_get (loadbalancer_tbl w) (Some lid) = Some db_lb \<and>
    f \<in> set (allocated (lb_amphorae db_lb)) \<and>
    get_vrrp_interface drv f (vrrp_timeout_dict conf) = Inl e' \<and>
    (\<forall>t \<in> set (allocated (lb_amphorae db_lb)).
       amp_id t \<noteq> amp_id f \<longrightarrow> \<not> isl (get_vrrp_interface drv t (vrrp_timeout_dict conf))) \<longrightarrow>
      \<not> isl (fst (AmphoraUpdateVRRPInterface_execute conf to_provider drv w loadbalancer)) \<and>
      map amp_status
        (amphora_tbl (snd (AmphoraUpdateVRRPInterface_execute conf to_provider drv w loadbalancer))) =
        map (\<lambda>r. if amp_id r = amp_id f then ERROR else amp_status r) (amphora_tbl w))"
proof (intro conjI impI)
  assume a: "(\<forall>amp \<in> set amphorae. dict_get amp ID \<noteq> None) \<and>
    dict_get loadbalancer LOADBALANCER_ID = Some lid \<and>
    py_index amphorae amphora_index = Inr target \<and>
    update_amphora_listeners drv
      (loadbalancer_rows_get (loadbalancer_tbl w) (Some lid))
      (amphora_rows_get (amphora_tbl w) (dict_get target ID)) td = Inl e"
  then have t: "fst (AmpListenersUpdate_try drv w loadbalancer amphora_index amphorae td) = Inl e"
    using AmpListenersUpdate_try_driver [of amphorae loadbalancer lid amphora_index target drv w td]
    by simp
  from a have p: "py_index amphorae amphora_index = Inr target" by simp
  from AmpListenersUpdate_execute_caught [OF p t]
  show "fst (AmpListenersUpdate_execute drv w loadbalancer amphora_index amphorae td) = Inr ()"
    by simp
  from AmpListenersUpdate_execute_caught [OF p t]
  show "map amp_status
        (amphora_tbl (snd (AmpListenersUpdate_execute drv w loadbalancer amphora_index amphorae td))) =
        map (\<lambda>r. if Some (amp_id r) = dict_get target ID then ERROR else amp_status r)
          (amphora_tbl w)"
    by (simp add: amphora_rows_update_status)
next
  assume b: "dict_get loadbalancer LOADBALANCER_ID = Some lid \<and>
    loadbalancer_rows_get (loadbalancer_tbl w) (Some lid) = Some db_lb \<and>
    f \<in> set (allocated (lb_amphorae db_lb)) \<and>
    get_vrrp_interface drv f (vrrp_timeout_dict conf) = Inl e' \<and>
    (\<forall>t \<in> set (allocated (lb_amphorae db_lb)).
       amp_id t \<noteq> amp_id f \<longrightarrow> \<not> isl (get_vrrp_interface drv t (vrrp_timeout_dict conf)))"
  then have h: "dict_get loadbalancer LOADBALANCER_ID = Some lid"
    "loadbalancer_rows_get (loadbalancer_tbl w) (Some lid) = Some db_lb"
    "f \<in> set (allocated (lb_amphorae db_lb))"
    "get_vrrp_interface drv f (vrrp_timeout_dict conf) = Inl e'"
    "\<forall>t \<in> set (allocated (lb_amphorae db_lb)).
       amp_id t \<noteq> amp_id f \<longrightarrow> \<not> isl (get_vrrp_interface drv t (vrrp_timeout_dict conf))"
    by simp_all
  from vrrp_single_failure_statuses [OF h, of to_provider]
  show "\<not> isl (fst (AmphoraUpdateVRRPInterface_execute conf to_provider drv w loadbalancer))"
    by simp
  from vrrp_single_failure_statuses [OF h, of to_provider]
  show "map amp_status
        (amphora_tbl (snd (AmphoraUpdateVRRPInterface_execute conf to_provider drv w loadbalancer))) =
        map (\<lambda>r. if amp_id r = amp_id f then ERROR else amp_status r) (amphora_tbl w)"
    by simp
qed

theorem fan_out_single_failure_witness:
  "dict_get amp_a_dict ID = Some ''a1'' \<and> dict_get amp_b_dict ID = Some ''a2'' \<and>
   dict_get lb0_dict LOADBALANCER_ID = Some ''lb1'' \<and>
   py_index [amp_a_dict, amp_b_dict] 0 = Inr amp_a_dict \<and>
   update_amphora_listeners driver_a1_broken
     (loadbalancer_rows_get (loadbalancer_tbl world0) (Some ''lb1''))
     (amphora_rows_get (amphora_tbl world0) (dict_get amp_a_dict ID)) [] =
     Inl (Exn (OtherException ''RuntimeError'') ''upload failed'') \<and>
   map amp_status (amphora_tbl world0) = [''ALLOCATED'', ''ALLOCATED''] \<and>
   fst (AmpListenersUpdate_execute driver_a1_broken world0 lb0_dict 0
          [amp_a_dict, amp_b_dict] []) = Inr () \<and>
   map amp_status
     (amphora_tbl (snd (AmpListenersUpdate_execute driver_a1_broken world0 lb0_dict 0
                          [amp_a_dict, amp_b_dict] []))) = [''ERROR'', ''ALLOCATED''] \<and>
   loadbalancer_rows_get (loadbalancer_tbl world0) (Some ''lb1'') = Some lb0 \<and>
   allocated (lb_amphorae lb0) = [amp_a, amp_b] \<and>
   get_vrrp_interface driver_a1_broken amp_a (vrrp_timeout_dict conf0) =
     Inl (Exn (OtherException ''RuntimeError'') ''no interface'') \<and>
   get_vrrp_interface driver_a1_broken amp_b (vrrp_timeout_dict conf0) = Inr ''eth1'' \<and>
   fst (AmphoraUpdateVRRPInterface_execute conf0 provider0 driver_a1_broken world0 lb0_dict) \<noteq>
     Inl (Exn (OtherException ''RuntimeError'') ''no interface'') \<and>
   map amp_status
     (amphora_tbl (snd (AmphoraUpdateVRRPInterface_execute conf0 provider0 driver_a1_broken
                          world0 lb0_dict))) = [''ERROR'', ''ALLOCATED'']"
proof -
  have a1: "dict_get amp_a_dict ID = Some ''a1''"
    by (simp add: dict_get_def amp_a_dict_def ID_def)
  have a2: "dict_get amp_b_dict ID = Some ''a2''"
    by (simp add: dict_get_def amp_b_dict_def ID_def)
  have h1: "\<forall>amp \<in> set [amp_a_dict, amp_b_dict]. dict_get amp ID \<noteq> None"
    using a1 a2 by simp
  have h2: "dict_get lb0_dict LOADBALANCER_ID = Some ''lb1''"
    by (simp add: dict_get_def lb0_dict_def LOADBALANCER_ID_def)
  have h3: "py_index [amp_a_dict, amp_b_dict] 0 = Inr amp_a_dict"
    by (simp add: py_index_def valid_index_def)
  have h4: "update_amphora_listeners driver_a1_broken
     (loadbalancer_rows_get (loadbalancer_tbl world0) (Some ''lb1''))
     (amphora_rows_get (amphora_tbl world0) (dict_get amp_a_dict ID)) [] =
     Inl (Exn (OtherException ''RuntimeError'') ''upload failed'')"
    by (simp add: driver_a1_broken_def driver_ok_def)
  have s0: "map amp_status (amphora_tbl world0) = [''ALLOCATED'', ''ALLOCATED'']"
    by (simp add: world0_def amp_a_def amp_b_def)
  have i0: "map amp_id (amphora_tbl world0) = [''a1'', ''a2'']"
    by (simp add: world0_def amp_a_def amp_b_def)
  have t0: "amphora_tbl world0 = [amp_a, amp_b]" by (simp add: world0_def)
  have g1: "loadbalancer_rows_get (loadbalancer_tbl world0) (Some ''lb1'') = Some lb0"
    by (simp add: loadbalancer_rows_get_def world0_def lb0_def)
  have g2: "allocated (lb_amphorae lb0) = [amp_a, amp_b]"
    by (simp add: allocated_def lb0_def amp_a_def amp_b_def AMPHORA_ALLOCATED_def)
  have g3: "get_vrrp_interface driver_a1_broken amp_a (vrrp_timeout_dict conf0) =
              Inl (Exn (OtherException ''RuntimeError'') ''no interface'')"
    by (simp add: driver_a1_broken_def driver_ok_def amp_a_def)
  have g4: "get_vrrp_interface driver_a1_broken amp_b (vrrp_timeout_dict conf0) = Inr ''eth1''"
    by (simp add: driver_a1_broken_def driver_ok_def amp_b_def)
  have g5: "amp_a \<in> set (allocated (lb_amphorae lb0))" using g2 by simp
  have g6: "\<forall>t \<in> set (allocated (lb_amphorae lb0)).
              amp_id t \<noteq> amp_id amp_a \<longrightarrow>
              \<not> isl (get_vrrp_interface driver_a1_broken t (vrrp_timeout_dict conf0))"
    using g2 g4 by simp
  have A: "fst (AmpListenersUpdate_execute driver_a1_broken world0 lb0_dict 0
                  [amp_a_dict, amp_b_dict] []) = Inr () \<and>
           map amp_status
             (amphora_tbl (snd (AmpListenersUpdate_execute driver_a1_broken world0 lb0_dict 0
                                  [amp_a_dict, amp_b_dict] []))) =
           map (\<lambda>r. if Some (amp_id r) = dict_get amp_a_dict ID then ERROR else amp_status r)
             (amphora_tbl world0)"
    using fan_out_single_failure [where amphorae = "[amp_a_dict, amp_b_dict]" and loadbalancer = lb0_dict
                and lid = "''lb1''" and amphora_index = 0 and target = amp_a_dict
                and drv = driver_a1_broken and w = world0 and td = "[]"
                and e = "Exn (OtherException ''RuntimeError'') ''upload failed''",
              THEN conjunct1]
          h1 h2 h3 h4
    by blast
  have B: "\<not> isl (fst (AmphoraUpdateVRRPInterface_execute conf0 provider0 driver_a1_broken
                          world0 lb0_dict)) \<and>
           map amp_status
             (amphora_tbl (snd (AmphoraUpdateVRRPInterface_execute conf0 provider0
                                  driver_a1_broken world0 lb0_dict))) =
           map (\<lambda>r. if amp_id r = amp_id amp_a then ERROR else amp_status r) (amphora_tbl world0)"
    using fan_out_single_failure [where loadbalancer = lb0_dict and lid = "''lb1''" and w = world0 and db_lb = lb0
                and f = amp_a and drv = driver_a1_broken and conf = conf0
                and e' = "Exn (OtherException ''RuntimeError'') ''no interface''"
                and to_provider = provider0,
              THEN conjunct2]
          h2 g1 g5 g3 g6
    by blast
  have A': "map (\<lambda>r. if Some (amp_id r) = dict_get amp_a_dict ID then ERROR else amp_status r)
              (amphora_tbl world0) = [''ERROR'', ''ALLOCATED'']"
    by (simp add: a1 t0 amp_a_def amp_b_def ERROR_def)
  have B': "map (\<lambda>r. if amp_id r = amp_id amp_a then ERROR else amp_status r) (amphora_tbl world0) =
              [''ERROR'', ''ALLOCATED'']"
    by (simp add: t0 amp_a_def amp_b_def ERROR_def)
  from B have B'': "fst (AmphoraUpdateVRRPInterface_execute conf0 provider0 driver_a1_broken world0 lb0_dict) \<noteq>
     Inl (Exn (OtherException ''RuntimeError'') ''no interface'')"
    by auto
  from A B A' B' B'' a1 a2 h2 h3 h4 s0 g1 g2 g3 g4 show ?thesis
    by simp
qed







end
